theory Spec2Isabelle
  imports Main
begin

section \<open>Moxie: the Mock State Record\<close>

text \<open>
  \<open>moxie.h\<close> generates, for each mocked function \<open>FUNC\<close>, one static
  \<open>MoxieState\<close> record and five accessors on it. This section embeds the record
  and the bodies of the accessors. The later sections embed the macro layer that
  produces the text of the other generated functions.
\<close>

subsection \<open>The expectation-tracking collaborator (CppUMock C interface)\<close>

text \<open>
  The collaborator is outside the repository. What is represented of it are the
  accessors the generated text names, and the data an adapter sees: the tracking
  context (named by its scope), the actual-call records with their registrations,
  and what the expectation framework configured as return value.
\<close>

datatype accessor =
    withBoolParameters | withIntParameters | withUnsignedIntParameters
  | withLongIntParameters | withUnsignedLongIntParameters | withDoubleParameters
  | withStringParameters | withPointerParameters | withOutputParameter
  | withParameterOfType string | withOutputParameterOfType string

datatype return_accessor =
    boolReturnValue | intReturnValue | unsignedIntReturnValue | longIntReturnValue
  | unsignedLongIntReturnValue | doubleReturnValue | stringReturnValue | pointerReturnValue

type_synonym 'v args = "(string \<times> 'v) list"

record 'v registration =
  reg_accessor :: accessor
  reg_name :: string
  reg_value :: "'v option"

record 'v actual_call =
  ac_scope :: string
  ac_name :: string
  ac_params :: "'v registration list"

record ('v, 'r) world =
  actual_calls :: "'v actual_call list"
  real_calls :: "'v args list"
  hasReturnValue :: bool
  returnValue :: "return_accessor \<Rightarrow> 'r"

type_synonym MockSupport_c = string
type_synonym MockActualCall_c = nat

type_synonym ('v, 'r) MoxieCallFunc =
  "MockSupport_c \<Rightarrow> MockActualCall_c \<Rightarrow> 'v args \<Rightarrow> ('v, 'r) world \<Rightarrow> ('v, 'r) world"

text \<open>A C result is \<open>Some x\<close>, or \<open>None\<close> when the function's type is \<open>void\<close>.\<close>

type_synonym ('v, 'r) MoxieStubFunc =
  "MockSupport_c \<Rightarrow> MockActualCall_c \<Rightarrow> 'v args \<Rightarrow> ('v, 'r) world
     \<Rightarrow> 'r option \<times> ('v, 'r) world"

subsection \<open>The Mock State Record and its accessors\<close>

text \<open>
  \<open>struct MoxieState { int mockFlag; char *scope; void *callFunc; void *stubFunc; }\<close>.
  A function pointer is \<open>None\<close> when it is \<open>NULL\<close> and \<open>Some f\<close> otherwise.
\<close>

record ('v, 'r) MoxieState =
  mockFlag :: int
  scope :: string
  callFunc :: "('v, 'r) MoxieCallFunc option"
  stubFunc :: "('v, 'r) MoxieStubFunc option"

text \<open>
  The static initialiser of \<open>__mState_FUNC\<close>. The two parameters stand for the
  addresses \<open>&__mCallFunc_FUNC\<close> and \<open>&__mStubFunc_FUNC\<close> of the generated adapters.
\<close>

definition mState ::
  "('v, 'r) MoxieCallFunc \<Rightarrow> ('v, 'r) MoxieStubFunc \<Rightarrow> ('v, 'r) MoxieState" where
  "mState dcall dstub =
     \<lparr>mockFlag = 0, scope = '''', callFunc = Some dcall, stubFunc = Some dstub\<rparr>"

definition mReset ::
  "('v, 'r) MoxieCallFunc \<Rightarrow> ('v, 'r) MoxieStubFunc \<Rightarrow> ('v, 'r) MoxieState \<Rightarrow> ('v, 'r) MoxieState" where
  "mReset dcall dstub s =
     s\<lparr>mockFlag := 0, scope := '''', callFunc := Some dcall, stubFunc := Some dstub\<rparr>"

definition mEnable :: "('v, 'r) MoxieState \<Rightarrow> ('v, 'r) MoxieState" where
  "mEnable s = s\<lparr>mockFlag := 1\<rparr>"

text \<open>
  \<open>#ifndef Assert / #define Assert(c,...) / #endif\<close>: when the including build defines
  no \<open>Assert\<close>, the header defines it with an empty replacement list. A definition
  supplied by the build is not part of the repository; it is taken to stop the call
  when its condition is zero.
\<close>

datatype assert_macro = Assert_undefined | Assert_defined

datatype failure = Assertion_failed

definition Assert :: "assert_macro \<Rightarrow> int \<Rightarrow> 'a \<Rightarrow> failure + 'a" where
  "Assert am c k =
     (case am of
        Assert_undefined \<Rightarrow> Inr k
      | Assert_defined \<Rightarrow> (if c \<noteq> 0 then Inr k else Inl Assertion_failed))"

definition mSetScope ::
  "assert_macro \<Rightarrow> string \<Rightarrow> ('v, 'r) MoxieState \<Rightarrow> failure + ('v, 'r) MoxieState" where
  "mSetScope am sc s = Assert am (mockFlag s) (s\<lparr>scope := sc\<rparr>)"

definition mSetCallFunc ::
  "assert_macro \<Rightarrow> ('v, 'r) MoxieCallFunc option \<Rightarrow> ('v, 'r) MoxieState
     \<Rightarrow> failure + ('v, 'r) MoxieState" where
  "mSetCallFunc am cf s = Assert am (mockFlag s) (s\<lparr>callFunc := cf\<rparr>)"

definition mSetStubFunc ::
  "assert_macro \<Rightarrow> ('v, 'r) MoxieStubFunc option \<Rightarrow> ('v, 'r) MoxieState
     \<Rightarrow> failure + ('v, 'r) MoxieState" where
  "mSetStubFunc am sf s = Assert am (mockFlag s) (s\<lparr>stubFunc := sf\<rparr>)"

section \<open>Type macros: return and parameter descriptors\<close>

text \<open>
  A public \<open>M_RETURN_*\<close> / \<open>M_PARAM_*\<close> macro call leaves a deferred suffix tag
  followed by its parenthesised arguments, for instance \<open>_BOOL (PTYPE,PNAME)\<close>; the
  private \<open>_M_..._TYPE\<close>, \<open>_M_..._NAME\<close> and \<open>_M_..._CALLBACK\<close> macros paste
  their own prefix onto the tag. A descriptor is that tag with its arguments. Types,
  names and caller-supplied code are kept as text.
\<close>

datatype ret =
    R_VOID
  | R_BOOL string | R_INT string | R_UINT string | R_LONG string | R_ULONG string
  | R_DOUBLE string | R_CHAR_PTR string | R_PTR string
  | R_CUSTOM string string

datatype param =
    P_VOID string string | P_MS string string | P_MAC string string
  | P_BOOL string string | P_INT string string | P_UINT string string
  | P_LONG string string | P_ULONG string string | P_DOUBLE string string
  | P_CHAR_PTR string string | P_IN_PTR string string | P_OUT_PTR string string
  | P_IN_TYPE_PTR string string | P_OUT_TYPE_PTR string string
  | P_IGNORE string string | P_CUSTOM string string string

definition M_PARAM_VOID :: param where
  "M_PARAM_VOID = P_VOID ''void'' ''''"

definition M_PARAM_MS :: param where
  "M_PARAM_MS = P_MS ''MockSupport_c*'' ''mockSupport''"

definition M_PARAM_MAC :: param where
  "M_PARAM_MAC = P_MAC ''MockActualCall_c*'' ''actualCall''"

fun M_PARAM_TYPE :: "param \<Rightarrow> string" where
  "M_PARAM_TYPE (P_VOID PTYPE PNAME) = PTYPE"
| "M_PARAM_TYPE (P_MS PTYPE PNAME) = PTYPE"
| "M_PARAM_TYPE (P_MAC PTYPE PNAME) = PTYPE"
| "M_PARAM_TYPE (P_BOOL PTYPE PNAME) = PTYPE"
| "M_PARAM_TYPE (P_INT PTYPE PNAME) = PTYPE"
| "M_PARAM_TYPE (P_UINT PTYPE PNAME) = PTYPE"
| "M_PARAM_TYPE (P_LONG PTYPE PNAME) = PTYPE"
| "M_PARAM_TYPE (P_ULONG PTYPE PNAME) = PTYPE"
| "M_PARAM_TYPE (P_DOUBLE PTYPE PNAME) = PTYPE"
| "M_PARAM_TYPE (P_CHAR_PTR PTYPE PNAME) = PTYPE"
| "M_PARAM_TYPE (P_IN_PTR PTYPE PNAME) = PTYPE"
| "M_PARAM_TYPE (P_OUT_PTR PTYPE PNAME) = PTYPE"
| "M_PARAM_TYPE (P_IN_TYPE_PTR PTYPE PNAME) = PTYPE"
| "M_PARAM_TYPE (P_OUT_TYPE_PTR PTYPE PNAME) = PTYPE"
| "M_PARAM_TYPE (P_IGNORE PTYPE PNAME) = PTYPE"
| "M_PARAM_TYPE (P_CUSTOM PTYPE PNAME code) = PTYPE"

text \<open>\<open>_M_PARAM_NAME_VOID\<close> has an empty replacement list: it leaves no token.\<close>

fun M_PARAM_NAME :: "param \<Rightarrow> string list" where
  "M_PARAM_NAME (P_VOID PTYPE PNAME) = []"
| "M_PARAM_NAME (P_MS PTYPE PNAME) = [PNAME]"
| "M_PARAM_NAME (P_MAC PTYPE PNAME) = [PNAME]"
| "M_PARAM_NAME (P_BOOL PTYPE PNAME) = [PNAME]"
| "M_PARAM_NAME (P_INT PTYPE PNAME) = [PNAME]"
| "M_PARAM_NAME (P_UINT PTYPE PNAME) = [PNAME]"
| "M_PARAM_NAME (P_LONG PTYPE PNAME) = [PNAME]"
| "M_PARAM_NAME (P_ULONG PTYPE PNAME) = [PNAME]"
| "M_PARAM_NAME (P_DOUBLE PTYPE PNAME) = [PNAME]"
| "M_PARAM_NAME (P_CHAR_PTR PTYPE PNAME) = [PNAME]"
| "M_PARAM_NAME (P_IN_PTR PTYPE PNAME) = [PNAME]"
| "M_PARAM_NAME (P_OUT_PTR PTYPE PNAME) = [PNAME]"
| "M_PARAM_NAME (P_IN_TYPE_PTR PTYPE PNAME) = [PNAME]"
| "M_PARAM_NAME (P_OUT_TYPE_PTR PTYPE PNAME) = [PNAME]"
| "M_PARAM_NAME (P_IGNORE PTYPE PNAME) = [PNAME]"
| "M_PARAM_NAME (P_CUSTOM PTYPE PNAME code) = [PNAME]"

text \<open>
  The statements a \<open>_M_PARAM_CALLBACK_*\<close> macro leaves in the call adapter.
  \<open>Call_with a lit e\<close> is \<open>actualCall->a(lit, e);\<close> where \<open>lit\<close> is the string
  literal \<open>_M_STR(PNAME)\<close> and \<open>e\<close> the identifier \<open>PNAME\<close>; the two typed-pointer
  accessors carry the literal \<open>_M_STR(PTYPE)\<close> as their first argument.
\<close>

definition M_STR :: "string \<Rightarrow> string" where
  "M_STR x = x"

datatype stmt =
    Call_with accessor string string
  | Code string

fun M_PARAM_CALLBACK :: "param \<Rightarrow> stmt list" where
  "M_PARAM_CALLBACK (P_VOID PTYPE PNAME) = []"
| "M_PARAM_CALLBACK (P_MS PTYPE PNAME) = []"
| "M_PARAM_CALLBACK (P_MAC PTYPE PNAME) = []"
| "M_PARAM_CALLBACK (P_BOOL PTYPE PNAME) = [Call_with withBoolParameters (M_STR PNAME) PNAME]"
| "M_PARAM_CALLBACK (P_INT PTYPE PNAME) = [Call_with withIntParameters (M_STR PNAME) PNAME]"
| "M_PARAM_CALLBACK (P_UINT PTYPE PNAME) =
     [Call_with withUnsignedIntParameters (M_STR PNAME) PNAME]"
| "M_PARAM_CALLBACK (P_LONG PTYPE PNAME) = [Call_with withLongIntParameters (M_STR PNAME) PNAME]"
| "M_PARAM_CALLBACK (P_ULONG PTYPE PNAME) =
     [Call_with withUnsignedLongIntParameters (M_STR PNAME) PNAME]"
| "M_PARAM_CALLBACK (P_DOUBLE PTYPE PNAME) =
     [Call_with withDoubleParameters (M_STR PNAME) PNAME]"
| "M_PARAM_CALLBACK (P_CHAR_PTR PTYPE PNAME) =
     [Call_with withStringParameters (M_STR PNAME) PNAME]"
| "M_PARAM_CALLBACK (P_IN_PTR PTYPE PNAME) =
     [Call_with withPointerParameters (M_STR PNAME) PNAME]"
| "M_PARAM_CALLBACK (P_OUT_PTR PTYPE PNAME) =
     [Call_with withOutputParameter (M_STR PNAME) PNAME]"
| "M_PARAM_CALLBACK (P_IN_TYPE_PTR PTYPE PNAME) =
     [Call_with (withParameterOfType (M_STR PTYPE)) (M_STR PNAME) PNAME]"
| "M_PARAM_CALLBACK (P_OUT_TYPE_PTR PTYPE PNAME) =
     [Call_with (withOutputParameterOfType (M_STR PTYPE)) (M_STR PNAME) PNAME]"
| "M_PARAM_CALLBACK (P_IGNORE PTYPE PNAME) = []"
| "M_PARAM_CALLBACK (P_CUSTOM PTYPE PNAME code) = [Code code]"

section \<open>API accessor macros\<close>

text \<open>
  The replacement lists of \<open>Moxie_reset\<close> ... \<open>Moxie_setStubFunc\<close> are written
  \<open>__mReset_#FUNC\<close> etc.: the operator is the stringizing \<open>#\<close>, so the expansion
  is the prefix identifier followed by the string literal of the argument. The
  replacement lists of \<open>M_REAL_FUNC\<close> and \<open>M_MOCK_FUNC\<close>, and the names declared
  by \<open>_M_DECLARE_MOCK\<close>, are written with the pasting \<open>##\<close>.
\<close>

datatype ctoken = Identifier string | String_literal string

definition Moxie_reset :: "string \<Rightarrow> ctoken list" where
  "Moxie_reset FUNC = [Identifier ''__mReset_'', String_literal FUNC]"

definition Moxie_enable :: "string \<Rightarrow> ctoken list" where
  "Moxie_enable FUNC = [Identifier ''__mEnable_'', String_literal FUNC]"

definition Moxie_setScope :: "string \<Rightarrow> ctoken list" where
  "Moxie_setScope FUNC = [Identifier ''__mSetScope_'', String_literal FUNC]"

definition Moxie_setCallFunc :: "string \<Rightarrow> ctoken list" where
  "Moxie_setCallFunc FUNC = [Identifier ''__mSetCallFunc_'', String_literal FUNC]"

definition Moxie_setStubFunc :: "string \<Rightarrow> ctoken list" where
  "Moxie_setStubFunc FUNC = [Identifier ''__mSetStubFunc_'', String_literal FUNC]"

definition M_REAL_FUNC :: "string \<Rightarrow> ctoken list" where
  "M_REAL_FUNC FUNC = [Identifier (''__real_'' @ FUNC)]"

definition M_MOCK_FUNC :: "string \<Rightarrow> ctoken list" where
  "M_MOCK_FUNC FUNC = [Identifier (''__wrap_'' @ FUNC)]"

text \<open>
  The accessor names \<open>_M_DECLARE_MOCK\<close> declares and \<open>_M_IMPLEMENT_MOCK_PREFACE\<close>
  defines, in the order reset, enable, set-scope, set-call-adapter, set-return-adapter.
\<close>

definition declared_accessors :: "string \<Rightarrow> ctoken list" where
  "declared_accessors FUNC =
     [Identifier (''__mReset_'' @ FUNC), Identifier (''__mEnable_'' @ FUNC),
      Identifier (''__mSetScope_'' @ FUNC), Identifier (''__mSetCallFunc_'' @ FUNC),
      Identifier (''__mSetStubFunc_'' @ FUNC)]"

section \<open>Meta macros\<close>

text \<open>
  Preprocessing tokens are kept as text. \<open>M_PCAT\<close> pastes its first argument onto
  the first token of the second. After a paste the result is rescanned: an
  identifier naming an object-like macro of the header is replaced by that macro's
  replacement list, any other token stays.
\<close>

type_synonym token = string

definition M_PCAT :: "token \<Rightarrow> token list \<Rightarrow> token list" where
  "M_PCAT x va = (case va of [] \<Rightarrow> [x] | t # ts \<Rightarrow> (x @ t) # ts)"

definition object_macro :: "token \<Rightarrow> token list option" where
  "object_macro t =
     (if t = ''_M_NEGATE_0'' then Some [''1'']
      else if t = ''_M_NEGATE_1'' then Some [''0'']
      else if t = ''_M_NOT_0'' then Some [''~'', '','', ''1'', '','']
      else None)"

definition rescan :: "token list \<Rightarrow> token list" where
  "rescan ts = concat (map (\<lambda>t. case object_macro t of None \<Rightarrow> [t] | Some r \<Rightarrow> r) ts)"

text \<open>Macro arguments are separated at commas (no token list here nests parentheses
  around a comma).\<close>

fun split_args :: "token list \<Rightarrow> token list list" where
  "split_args [] = [[]]"
| "split_args (t # ts) =
     (if t = '','' then [] # split_args ts
      else (case split_args ts of [] \<Rightarrow> [[t]] | a # as \<Rightarrow> (t # a) # as))"

text \<open>\<open>_M_CHECK_N(x,n,...) n\<close> and \<open>_M_CHECK(...) _M_CHECK_N(__VA_ARGS__,0,)\<close>.\<close>

definition M_CHECK_N :: "token list list \<Rightarrow> token list" where
  "M_CHECK_N as = (case as of x # n # va \<Rightarrow> n | _ \<Rightarrow> [])"

definition M_CHECK :: "token list \<Rightarrow> token list" where
  "M_CHECK va = M_CHECK_N (split_args (va @ ['','', ''0'', '','']))"

text \<open>\<open>_M_IS_PAREN(x) _M_CHECK(_M_IS_PAREN_PROBE x)\<close> with
  \<open>_M_IS_PAREN_PROBE(...) _M_PROBE(~)\<close> and \<open>_M_PROBE(x) x, 1,\<close>: the probe is
  invoked only when \<open>x\<close> starts with a parenthesis.\<close>

definition M_IS_PAREN :: "token list \<Rightarrow> token list" where
  "M_IS_PAREN x =
     M_CHECK (case x of
                [] \<Rightarrow> [''_M_IS_PAREN_PROBE'']
              | t # ts \<Rightarrow> (if t = ''('' then [''~'', '','', ''1'', '','']
                           else ''_M_IS_PAREN_PROBE'' # t # ts))"

text \<open>\<open>#define _M_NEGATE(x) _M_PCAT(_M_NEGATE,x)\<close>, next to
  \<open>#define _M_NEGATE_0 1\<close> and \<open>#define _M_NEGATE_1 0\<close>.\<close>

definition M_NEGATE :: "token list \<Rightarrow> token list" where
  "M_NEGATE x = rescan (M_PCAT ''_M_NEGATE'' x)"

text \<open>\<open>#define _M_NOT(x) _M_CHECK(_M_PCAT(_M_NOT_,x))\<close>.\<close>

definition M_NOT :: "token list \<Rightarrow> token list" where
  "M_NOT x = M_CHECK (rescan (M_PCAT ''_M_NOT_'' x))"

definition M_IS_TRUE :: "token list \<Rightarrow> token list" where
  "M_IS_TRUE x = M_NEGATE (M_NOT x)"

text \<open>
  The outcome of applying a pasted macro name to an argument list: either the
  function-like macro of that name exists and is expanded, or the name is no macro
  and stays in the output, followed by its (expanded) arguments in parentheses.
\<close>

datatype 'a expansion = Expanded 'a | Unexpanded "token list" "'a list"

text \<open>\<open>_M_IF_(x) _M_PCAT(_M_IF_,x)\<close>, \<open>_M_IF_0(t,...) __VA_ARGS__\<close>,
  \<open>_M_IF_1(t,...) t\<close>.\<close>

definition M_IF_sel :: "token list \<Rightarrow> 'a \<Rightarrow> 'a \<Rightarrow> 'a expansion" where
  "M_IF_sel x t va =
     (let name = M_PCAT ''_M_IF_'' x in
      if name = [''_M_IF_0''] then Expanded va
      else if name = [''_M_IF_1''] then Expanded t
      else Unexpanded name [t, va])"

definition M_IF :: "token list \<Rightarrow> 'a \<Rightarrow> 'a \<Rightarrow> 'a expansion" where
  "M_IF p t va = M_IF_sel (M_IS_TRUE p) t va"

text \<open>\<open>_M_AND(x) _M_PCAT(_M_AND_,x)\<close>, \<open>_M_AND_0(y) 0\<close>, \<open>_M_AND_1(y) y\<close>.\<close>

definition M_AND :: "token list \<Rightarrow> token list \<Rightarrow> token list" where
  "M_AND x y =
     (let name = M_PCAT ''_M_AND_'' x in
      if name = [''_M_AND_0''] then [''0'']
      else if name = [''_M_AND_1''] then y
      else name @ [''(''] @ y @ ['')''])"

text \<open>
  \<open>#define _M_COMPARE_void(x) x\<close> is the only \<open>_M_COMPARE_\<close> macro. A type is one
  text; \<open>M_COMPARE x a\<close> is \<open>_M_COMPARE_x(a)\<close>, left as it is when \<open>x\<close> is not
  \<open>void\<close>.
\<close>

definition M_COMPARE :: "string \<Rightarrow> token list \<Rightarrow> token list" where
  "M_COMPARE x a =
     (if x = ''void'' then a else [''_M_COMPARE_'' @ x, ''(''] @ a @ ['')''])"

definition M_IS_COMPARABLE :: "string \<Rightarrow> token list" where
  "M_IS_COMPARABLE x = M_IS_PAREN (M_COMPARE x [''('', '')''])"

text \<open>
  \<open>_M_NEQ_COMPARABLE(x,y) _M_IS_PAREN(_M_COMPARE_x(_M_COMPARE_y)(()))\<close>: the inner
  name is not expanded again while the macro of the same name is being expanded.
\<close>

definition M_NEQ_COMPARABLE :: "string \<Rightarrow> string \<Rightarrow> token list" where
  "M_NEQ_COMPARABLE x y =
     M_IS_PAREN
       (if x = ''void'' then
          (if y = x then [''_M_COMPARE_'' @ y, ''('', ''('', '')'', '')'']
           else M_COMPARE y [''('', '')''])
        else [''_M_COMPARE_'' @ x, ''('', ''_M_COMPARE_'' @ y, '')'', ''('', ''('', '')'', '')''])"

text \<open>\<open>_M_NOT_EQUAL(x,y)
  _M_IF_(_M_AND(_M_IS_COMPARABLE(x))(_M_IS_COMPARABLE(y)))(_M_NEQ_COMPARABLE,1 _M_IGNORE)(x,y)\<close>.\<close>

definition M_NOT_EQUAL :: "string \<Rightarrow> string \<Rightarrow> token list" where
  "M_NOT_EQUAL x y =
     (case M_IF_sel (M_AND (M_IS_COMPARABLE x) (M_IS_COMPARABLE y))
             (M_NEQ_COMPARABLE x y) [''1''] of
        Expanded r \<Rightarrow> r
      | Unexpanded name as \<Rightarrow> name)"

definition M_EQUAL :: "string \<Rightarrow> string \<Rightarrow> token list" where
  "M_EQUAL x y = M_NEGATE (M_NOT_EQUAL x y)"

text \<open>The table \<open>_M_INC_0\<close> ... \<open>_M_INC_31\<close>; \<open>_M_INC_31\<close> is \<open>31\<close>.\<close>

definition M_INC :: "nat \<Rightarrow> nat" where
  "M_INC x = (if x < 31 then Suc x else 31)"

text \<open>
  \<open>_M_N_VA_ARGS(...)\<close> appends \<open>31,30,...,0\<close> to its arguments and
  \<open>_M_N_VA_ARGS_\<close> picks the 33rd of them. An empty \<open>__VA_ARGS__\<close> is one empty
  argument.
\<close>

datatype 'a va_arg = Empty_arg | Arg 'a | Num nat

definition M_N_VA_ARGS_pick :: "'a va_arg list \<Rightarrow> 'a va_arg option" where
  "M_N_VA_ARGS_pick as = (if 32 < length as then Some (as ! 32) else None)"

definition M_N_VA_ARGS :: "'a list \<Rightarrow> 'a va_arg option" where
  "M_N_VA_ARGS va =
     M_N_VA_ARGS_pick ((if va = [] then [Empty_arg] else map Arg va) @ map Num (rev [0..<32]))"

section \<open>The arity dispatcher \<open>_M_PARAMS\<close>\<close>

text \<open>
  \<open>_M_PARAMS_0\<close> ... \<open>_M_PARAMS_31\<close> are 32 macros of one shape:
  \<open>_M_PARAMS_n(CALLBACK,FUNC,INDEX,P,...)\<close> is \<open>CALLBACK(FUNC,INDEX,P)\<close> followed by
  \<open>_M_PARAMS_(n-1)(CALLBACK,FUNC,_M_INC(INDEX),__VA_ARGS__)\<close>, and \<open>_M_PARAMS_0\<close> is
  \<open>CALLBACK_TAIL(FUNC,INDEX,P)\<close>. The replacement list of \<open>_M_PARAMS_8\<close> reads
  \<open>CALLBACK(FUNC,INDEX,P)_M_PARAMS_7CALLBACK,FUNC,_M_INC(INDEX),__VA_ARGS__)\<close>: there
  is no parenthesis after \<open>_M_PARAMS_7\<close>, so the identifier \<open>_M_PARAMS_7CALLBACK\<close>,
  the remaining raw descriptors and an unmatched \<open>)\<close> are left in the output. Such
  an output is the value \<open>Inl Unbalanced_parenthesis\<close>. \<open>TAIL\<close> stands for the
  macro named \<open>CALLBACK##_TAIL\<close>.
\<close>

datatype malformed = Unbalanced_parenthesis | No_such_macro | Missing_argument

fun M_PARAMS_n ::
  "nat \<Rightarrow> (string \<Rightarrow> nat \<Rightarrow> param \<Rightarrow> 'a list) \<Rightarrow> (string \<Rightarrow> nat \<Rightarrow> param \<Rightarrow> 'a list)
     \<Rightarrow> string \<Rightarrow> nat \<Rightarrow> param list \<Rightarrow> malformed + 'a list" where
  "M_PARAMS_n 0 CALLBACK TAIL FUNC INDEX va =
     (case va of
        [] \<Rightarrow> Inl Missing_argument
      | P # rest \<Rightarrow> Inr (TAIL FUNC INDEX P))"
| "M_PARAMS_n (Suc n) CALLBACK TAIL FUNC INDEX va =
     (if 31 < Suc n then Inl No_such_macro
      else if Suc n = 8 then Inl Unbalanced_parenthesis
      else (case va of
              [] \<Rightarrow> Inl Missing_argument
            | P # rest \<Rightarrow>
                (case M_PARAMS_n n CALLBACK TAIL FUNC (M_INC INDEX) rest of
                   Inl e \<Rightarrow> Inl e
                 | Inr r \<Rightarrow> Inr (CALLBACK FUNC INDEX P @ r))))"

text \<open>\<open>_M_PARAMS(CALLBACK,FUNC,...)
  _M_DCAT(_M_PARAMS_,_M_N_VA_ARGS(__VA_ARGS__))(CALLBACK,FUNC,0,__VA_ARGS__)\<close>.\<close>

definition M_PARAMS ::
  "(string \<Rightarrow> nat \<Rightarrow> param \<Rightarrow> 'a list) \<Rightarrow> (string \<Rightarrow> nat \<Rightarrow> param \<Rightarrow> 'a list)
     \<Rightarrow> string \<Rightarrow> param list \<Rightarrow> malformed + 'a list" where
  "M_PARAMS CALLBACK TAIL FUNC va =
     (case M_N_VA_ARGS va of
        Some (Num n) \<Rightarrow> M_PARAMS_n n CALLBACK TAIL FUNC 0 va
      | _ \<Rightarrow> Inl No_such_macro)"

subsection \<open>The four projections\<close>

definition M_PARAM_DECLARATION_TAIL :: "string \<Rightarrow> nat \<Rightarrow> param \<Rightarrow> token list" where
  "M_PARAM_DECLARATION_TAIL FUNC INDEX P = M_PARAM_TYPE P # M_PARAM_NAME P"

definition M_PARAM_DECLARATION :: "string \<Rightarrow> nat \<Rightarrow> param \<Rightarrow> token list" where
  "M_PARAM_DECLARATION FUNC INDEX P = M_PARAM_TYPE P # M_PARAM_NAME P @ ['','']"

definition M_PARAMS_DECLARATION :: "string \<Rightarrow> param list \<Rightarrow> malformed + token list" where
  "M_PARAMS_DECLARATION FUNC va = M_PARAMS M_PARAM_DECLARATION M_PARAM_DECLARATION_TAIL FUNC va"

definition M_PARAM_PROTOTYPE_TAIL :: "string \<Rightarrow> nat \<Rightarrow> param \<Rightarrow> token list" where
  "M_PARAM_PROTOTYPE_TAIL FUNC INDEX P = [M_PARAM_TYPE P]"

definition M_PARAM_PROTOTYPE :: "string \<Rightarrow> nat \<Rightarrow> param \<Rightarrow> token list" where
  "M_PARAM_PROTOTYPE FUNC INDEX P = [M_PARAM_TYPE P, '','']"

definition M_PARAMS_PROTOTYPE :: "string \<Rightarrow> param list \<Rightarrow> malformed + token list" where
  "M_PARAMS_PROTOTYPE FUNC va = M_PARAMS M_PARAM_PROTOTYPE M_PARAM_PROTOTYPE_TAIL FUNC va"

definition M_PARAM_CALL_TAIL :: "string \<Rightarrow> nat \<Rightarrow> param \<Rightarrow> token list" where
  "M_PARAM_CALL_TAIL FUNC INDEX P = M_PARAM_NAME P"

definition M_PARAM_CALL :: "string \<Rightarrow> nat \<Rightarrow> param \<Rightarrow> token list" where
  "M_PARAM_CALL FUNC INDEX P = M_PARAM_NAME P @ ['','']"

definition M_PARAMS_CALL :: "string \<Rightarrow> param list \<Rightarrow> malformed + token list" where
  "M_PARAMS_CALL FUNC va = M_PARAMS M_PARAM_CALL M_PARAM_CALL_TAIL FUNC va"

definition M_PARAM_FUNC_IMPL_TAIL :: "string \<Rightarrow> nat \<Rightarrow> param \<Rightarrow> stmt list" where
  "M_PARAM_FUNC_IMPL_TAIL FUNC INDEX P = M_PARAM_CALLBACK P"

definition M_PARAM_FUNC_IMPL :: "string \<Rightarrow> nat \<Rightarrow> param \<Rightarrow> stmt list" where
  "M_PARAM_FUNC_IMPL FUNC INDEX P = M_PARAM_CALLBACK P"

definition M_PARAMS_FUNC_IMPL :: "string \<Rightarrow> param list \<Rightarrow> malformed + stmt list" where
  "M_PARAMS_FUNC_IMPL FUNC va = M_PARAMS M_PARAM_FUNC_IMPL M_PARAM_FUNC_IMPL_TAIL FUNC va"

subsection \<open>The projections with the two mock-support parameters\<close>

text \<open>
  \<open>_M_PARAMS_MOCK_X(FUNC,P,...)\<close> is
  \<open>_M_IF(_M_EQUAL(_M_PARAM_TYPE(P),void))(A, B)\<close> where \<open>A\<close> is \<open>_M_PARAMS\<close> over
  \<open>M_PARAM_MS,M_PARAM_MAC\<close> and \<open>B\<close> is \<open>_M_PARAMS\<close> over
  \<open>M_PARAM_MS,M_PARAM_MAC,P,##__VA_ARGS__\<close>.
\<close>

definition M_PARAMS_MOCK_DECLARATION ::
  "string \<Rightarrow> param \<Rightarrow> param list \<Rightarrow> (malformed + token list) expansion" where
  "M_PARAMS_MOCK_DECLARATION FUNC P va =
     M_IF (M_EQUAL (M_PARAM_TYPE P) ''void'')
       (M_PARAMS M_PARAM_DECLARATION M_PARAM_DECLARATION_TAIL FUNC [M_PARAM_MS, M_PARAM_MAC])
       (M_PARAMS M_PARAM_DECLARATION M_PARAM_DECLARATION_TAIL FUNC
          (M_PARAM_MS # M_PARAM_MAC # P # va))"

definition M_PARAMS_MOCK_PROTOTYPE ::
  "string \<Rightarrow> param \<Rightarrow> param list \<Rightarrow> (malformed + token list) expansion" where
  "M_PARAMS_MOCK_PROTOTYPE FUNC P va =
     M_IF (M_EQUAL (M_PARAM_TYPE P) ''void'')
       (M_PARAMS M_PARAM_PROTOTYPE M_PARAM_PROTOTYPE_TAIL FUNC [M_PARAM_MS, M_PARAM_MAC])
       (M_PARAMS M_PARAM_PROTOTYPE M_PARAM_PROTOTYPE_TAIL FUNC
          (M_PARAM_MS # M_PARAM_MAC # P # va))"

definition M_PARAMS_MOCK_CALL ::
  "string \<Rightarrow> param \<Rightarrow> param list \<Rightarrow> (malformed + token list) expansion" where
  "M_PARAMS_MOCK_CALL FUNC P va =
     M_IF (M_EQUAL (M_PARAM_TYPE P) ''void'')
       (M_PARAMS M_PARAM_CALL M_PARAM_CALL_TAIL FUNC [M_PARAM_MS, M_PARAM_MAC])
       (M_PARAMS M_PARAM_CALL M_PARAM_CALL_TAIL FUNC (M_PARAM_MS # M_PARAM_MAC # P # va))"

section \<open>Return descriptors and the return macros\<close>

text \<open>
  What a public \<open>M_RETURN_*\<close> call leaves behind: \<open>M_RETURN_VOID\<close> is
  \<open>_M_DEFER(_VOID)\<close>, the bare tag \<open>_VOID\<close>; \<open>M_RETURN_INT(PTYPE)\<close> is
  \<open>_M_DEFER(_INT)(PTYPE)\<close>, the tag followed by its arguments in parentheses; and
  so on for the other kinds.
\<close>

fun ret_tokens :: "ret \<Rightarrow> token list" where
  "ret_tokens R_VOID = [''_VOID'']"
| "ret_tokens (R_BOOL PTYPE) = [''_BOOL'', ''('', PTYPE, '')'']"
| "ret_tokens (R_INT PTYPE) = [''_INT'', ''('', PTYPE, '')'']"
| "ret_tokens (R_UINT PTYPE) = [''_UINT'', ''('', PTYPE, '')'']"
| "ret_tokens (R_LONG PTYPE) = [''_LONG'', ''('', PTYPE, '')'']"
| "ret_tokens (R_ULONG PTYPE) = [''_ULONG'', ''('', PTYPE, '')'']"
| "ret_tokens (R_DOUBLE PTYPE) = [''_DOUBLE'', ''('', PTYPE, '')'']"
| "ret_tokens (R_CHAR_PTR PTYPE) = [''_CHAR_PTR'', ''('', PTYPE, '')'']"
| "ret_tokens (R_PTR PTYPE) = [''_PTR'', ''('', PTYPE, '')'']"
| "ret_tokens (R_CUSTOM PTYPE code) = [''_CUSTOM'', ''('', PTYPE, '','', code, '')'']"

fun ret_args :: "ret \<Rightarrow> token list" where
  "ret_args R_VOID = []"
| "ret_args (R_BOOL PTYPE) = [PTYPE]"
| "ret_args (R_INT PTYPE) = [PTYPE]"
| "ret_args (R_UINT PTYPE) = [PTYPE]"
| "ret_args (R_LONG PTYPE) = [PTYPE]"
| "ret_args (R_ULONG PTYPE) = [PTYPE]"
| "ret_args (R_DOUBLE PTYPE) = [PTYPE]"
| "ret_args (R_CHAR_PTR PTYPE) = [PTYPE]"
| "ret_args (R_PTR PTYPE) = [PTYPE]"
| "ret_args (R_CUSTOM PTYPE code) = [PTYPE, code]"

text \<open>
  After a paste the first token is looked up among the macros the header defines
  under that prefix. When it names one, the macro is applied to the descriptor's
  arguments; when it names none, the pasted identifier and the tokens after it stay
  in the output.
\<close>

definition invoke ::
  "(token \<Rightarrow> (token list \<Rightarrow> token list) option) \<Rightarrow> token list \<Rightarrow> token list \<Rightarrow> token list" where
  "invoke table args ts =
     (case ts of
        [] \<Rightarrow> []
      | name # rest \<Rightarrow> (case table name of None \<Rightarrow> name # rest | Some f \<Rightarrow> f args))"

text \<open>The macros \<open>_M_RETURN_TYPE_VOID\<close> (\<open>void\<close>) and \<open>_M_RETURN_TYPE_BOOL\<close> ...
  \<open>_M_RETURN_TYPE_CUSTOM\<close> (each \<open>PTYPE\<close>, the first argument).\<close>

definition return_type_macro :: "token \<Rightarrow> (token list \<Rightarrow> token list) option" where
  "return_type_macro name =
     (if name = ''_M_RETURN_TYPE_VOID'' then Some (\<lambda>as. [''void''])
      else if name = ''_M_RETURN_TYPE_BOOL'' \<or> name = ''_M_RETURN_TYPE_INT''
            \<or> name = ''_M_RETURN_TYPE_UINT'' \<or> name = ''_M_RETURN_TYPE_LONG''
            \<or> name = ''_M_RETURN_TYPE_ULONG'' \<or> name = ''_M_RETURN_TYPE_DOUBLE''
            \<or> name = ''_M_RETURN_TYPE_CHAR_PTR'' \<or> name = ''_M_RETURN_TYPE_PTR''
            \<or> name = ''_M_RETURN_TYPE_CUSTOM''
      then Some (\<lambda>as. take 1 as)
      else None)"

text \<open>\<open>#define _M_RETURN_TYPE(RET) _M_RETURN_TYPE_##RET\<close>: the prefix ends in an
  underscore and the tag starts with one.\<close>

definition M_RETURN_TYPE :: "ret \<Rightarrow> token list" where
  "M_RETURN_TYPE RET =
     invoke return_type_macro (ret_args RET) (M_PCAT ''_M_RETURN_TYPE_'' (ret_tokens RET))"

text \<open>
  The macros \<open>_M_RETURN_CALLBACK_VOID\<close> (\<open>return;\<close>),
  \<open>_M_RETURN_CALLBACK_BOOL\<close> ... \<open>_M_RETURN_CALLBACK_PTR\<close>
  (\<open>return (PTYPE) actualCall->xReturnValue();\<close>) and \<open>_M_RETURN_CALLBACK_CUSTOM\<close>
  (the arguments after \<open>PTYPE\<close>).
\<close>

definition return_value_stmt :: "token \<Rightarrow> token list \<Rightarrow> token list" where
  "return_value_stmt accessor_name as =
     [''return'', ''(''] @ take 1 as @ ['')'', ''actualCall'', ''->'', accessor_name,
      ''('', '')'', '';'']"

definition return_callback_macro :: "token \<Rightarrow> (token list \<Rightarrow> token list) option" where
  "return_callback_macro name =
     (if name = ''_M_RETURN_CALLBACK_VOID'' then Some (\<lambda>as. [''return'', '';''])
      else if name = ''_M_RETURN_CALLBACK_BOOL''
        then Some (return_value_stmt ''boolReturnValue'')
      else if name = ''_M_RETURN_CALLBACK_INT''
        then Some (return_value_stmt ''intReturnValue'')
      else if name = ''_M_RETURN_CALLBACK_UINT''
        then Some (return_value_stmt ''unsignedIntReturnValue'')
      else if name = ''_M_RETURN_CALLBACK_LONG''
        then Some (return_value_stmt ''longIntReturnValue'')
      else if name = ''_M_RETURN_CALLBACK_ULONG''
        then Some (return_value_stmt ''unsignedLongIntReturnValue'')
      else if name = ''_M_RETURN_CALLBACK_DOUBLE''
        then Some (return_value_stmt ''doubleReturnValue'')
      else if name = ''_M_RETURN_CALLBACK_CHAR_PTR''
        then Some (return_value_stmt ''stringReturnValue'')
      else if name = ''_M_RETURN_CALLBACK_PTR''
        then Some (return_value_stmt ''pointerReturnValue'')
      else if name = ''_M_RETURN_CALLBACK_CUSTOM'' then Some (\<lambda>as. drop 1 as)
      else None)"

text \<open>\<open>#define _M_RETURN_CALLBACK(RET) _M_RETURN_CALLBACK_##RET\<close> and
  \<open>#define _M_RETURN_FUNC_IMPL(RET) _M_RETURN_CALLBACK(RET)\<close>.\<close>

definition M_RETURN_CALLBACK :: "ret \<Rightarrow> token list" where
  "M_RETURN_CALLBACK RET =
     invoke return_callback_macro (ret_args RET)
       (M_PCAT ''_M_RETURN_CALLBACK_'' (ret_tokens RET))"

definition M_RETURN_FUNC_IMPL :: "ret \<Rightarrow> token list" where
  "M_RETURN_FUNC_IMPL RET = M_RETURN_CALLBACK RET"

text \<open>Alternatives that stay in the output are written back separated by commas.\<close>

fun comma_separated :: "token list list \<Rightarrow> token list" where
  "comma_separated [] = []"
| "comma_separated [a] = a"
| "comma_separated (a # b # as) = a @ '','' # comma_separated (b # as)"

text \<open>
  \<open>#define _M_WHEN(p) _M_IF(p)(_M_EXPAND,_M_IGNORE)\<close>, applied to a second
  argument list: \<open>_M_EXPAND(...)\<close> is its arguments, \<open>_M_IGNORE(...)\<close> is empty.
  When \<open>_M_IF\<close> selects nothing, its pasted name, the two alternatives and the
  second argument list stay in the output.
\<close>

definition M_WHEN :: "token list \<Rightarrow> token list \<Rightarrow> token list" where
  "M_WHEN p va =
     (case M_IF p [''_M_EXPAND''] [''_M_IGNORE''] of
        Expanded m \<Rightarrow> (if m = [''_M_EXPAND''] then va else [])
      | Unexpanded name as \<Rightarrow>
          name @ [''(''] @ comma_separated as @ ['')'', ''(''] @ va @ ['')''])"

text \<open>
  \<open>#define _M_RETURN(RET) _M_WHEN(_M_NOT_EQUAL(_M_RETURN_TYPE(RET),void))(return)\<close>.
  The comparison macros take a type as one text; the tokens of the return type are
  joined for them.
\<close>

definition M_RETURN :: "ret \<Rightarrow> token list" where
  "M_RETURN RET = M_WHEN (M_NOT_EQUAL (concat (M_RETURN_TYPE RET)) ''void'') [''return'']"

section \<open>The text of the generated functions\<close>

text \<open>
  A projection that is malformed makes the text that contains it malformed. An
  \<open>_M_IF\<close> that selects nothing leaves its pasted name followed by both
  alternatives in parentheses.
\<close>

fun all_right :: "('e + 'a) list \<Rightarrow> 'e + 'a list" where
  "all_right [] = Inr []"
| "all_right (x # xs) =
     (case x of
        Inl e \<Rightarrow> Inl e
      | Inr a \<Rightarrow> (case all_right xs of Inl e \<Rightarrow> Inl e | Inr as \<Rightarrow> Inr (a # as)))"

fun tokens_of :: "(malformed + token list) expansion \<Rightarrow> malformed + token list" where
  "tokens_of (Expanded r) = r"
| "tokens_of (Unexpanded name as) =
     (case all_right as of
        Inl e \<Rightarrow> Inl e
      | Inr tss \<Rightarrow> Inr (name @ [''(''] @ comma_separated tss @ ['')'']))"

text \<open>The string literal \<open>_M_STR(x)\<close> and the character literal of the scope test,
  as tokens.\<close>

definition string_literal :: "string \<Rightarrow> token" where
  "string_literal x = CHR 0x22 # M_STR x @ [CHR 0x22]"

definition nul_literal :: token where
  "nul_literal = [CHR 0x27, CHR 0x5C, CHR ''0'', CHR 0x27]"

subsection \<open>\<open>_M_IMPLEMENT_MOCK_WRAP\<close>\<close>

text \<open>The three statements of \<open>__wrap_FUNC\<close> that call through (lines 411 and 437,
  line 425, line 432).\<close>

definition wrap_real_call :: "ret \<Rightarrow> string \<Rightarrow> token list \<Rightarrow> token list" where
  "wrap_real_call RET FUNC call =
     M_RETURN RET @ [''__real_'' @ FUNC, ''(''] @ call @ ['')'', '';'']"

definition wrap_callFunc_call :: "token list \<Rightarrow> token list" where
  "wrap_callFunc_call mock_call =
     [''('', ''*'', ''callFunc'', '')'', ''(''] @ mock_call @ ['')'', '';'']"

definition wrap_stubFunc_call :: "ret \<Rightarrow> token list \<Rightarrow> token list" where
  "wrap_stubFunc_call RET mock_call =
     M_RETURN RET @ [''('', ''*'', ''stubFunc'', '')'', ''(''] @ mock_call @ ['')'', '';'']"

text \<open>
  The replacement list of \<open>_M_IMPLEMENT_MOCK_WRAP(RET,FUNC,...)\<close>, lines 405 to 440,
  token by token; \<open>P\<close> is the first descriptor of \<open>__VA_ARGS__\<close> and \<open>va\<close> the
  rest. (The blank after the backslash of line 437 is taken as GCC and Clang take
  it, as a line continuation.)
\<close>

definition M_IMPLEMENT_MOCK_WRAP ::
  "ret \<Rightarrow> string \<Rightarrow> param \<Rightarrow> param list \<Rightarrow> malformed + token list" where
  "M_IMPLEMENT_MOCK_WRAP RET FUNC P va =
     (case M_PARAMS_DECLARATION FUNC (P # va) of
        Inl e \<Rightarrow> Inl e
      | Inr decl \<Rightarrow>
     (case M_PARAMS_CALL FUNC (P # va) of
        Inl e \<Rightarrow> Inl e
      | Inr call \<Rightarrow>
     (case tokens_of (M_PARAMS_MOCK_CALL FUNC P va) of
        Inl e \<Rightarrow> Inl e
      | Inr mock_call \<Rightarrow>
          Inr (M_RETURN_TYPE RET @ [''__wrap_'' @ FUNC, ''(''] @ decl @ ['')'',
               ''{'',
               ''int'', ''mockFlag'', ''='', ''__mState_'' @ FUNC, ''.'', ''mockFlag'', '';'',
               ''if'', ''('', ''!'', ''mockFlag'', '')'',
               ''{''] @
               wrap_real_call RET FUNC call @
              [''}'',
               ''else'',
               ''{'',
               ''char'', ''*'', ''scope'', ''='', ''__mState_'' @ FUNC, ''.'', ''scope'', '';'',
               ''MockSupport_c'', ''*'', ''mockSupport'', ''='',
                 ''('', ''scope'', ''['', ''0'', '']'', ''=='', nul_literal, '')'',
                 ''?'', ''mock_c'', ''('', '')'', '':'', ''mock_scope_c'', ''('', ''scope'', '')'', '';'',
               ''MockActualCall_c'', ''*'', ''actualCall'', ''='',
                 ''mockSupport'', ''->'', ''actualCall'', ''('', string_literal FUNC, '')'', '';'',
               ''MoxieCallFunc_'' @ FUNC, ''callFunc'', ''='',
                 ''__mState_'' @ FUNC, ''.'', ''callFunc'', '';'',
               ''if'', ''('', ''callFunc'', ''!='', ''NULL'', '')'',
               ''{''] @
               wrap_callFunc_call mock_call @
              [''}'',
               ''MoxieStubFunc_'' @ FUNC, ''stubFunc'', ''='',
                 ''__mState_'' @ FUNC, ''.'', ''stubFunc'', '';'',
               ''if'', ''('', ''stubFunc'', ''!='', ''NULL'', '')'',
               ''{''] @
               wrap_stubFunc_call RET mock_call @
              [''}'',
               ''else'',
               ''{''] @
               wrap_real_call RET FUNC call @
              [''}'',
               ''}'',
               ''}''])))) "

subsection \<open>\<open>_M_IMPLEMENT_MOCK_STUB\<close>\<close>

text \<open>
  The replacement list of \<open>_M_IMPLEMENT_MOCK_STUB(RET,FUNC,...)\<close>, lines 449 to
  457. Line 457 does not end in a backslash, so the replacement list ends with the
  statement of that line; lines 458 and 459 are not part of the macro.
\<close>

definition M_IMPLEMENT_MOCK_STUB ::
  "ret \<Rightarrow> string \<Rightarrow> param \<Rightarrow> param list \<Rightarrow> malformed + token list" where
  "M_IMPLEMENT_MOCK_STUB RET FUNC P va =
     (case tokens_of (M_PARAMS_MOCK_DECLARATION FUNC P va) of
        Inl e \<Rightarrow> Inl e
      | Inr mock_decl \<Rightarrow>
     (case M_PARAMS_CALL FUNC (P # va) of
        Inl e \<Rightarrow> Inl e
      | Inr call \<Rightarrow>
          Inr (M_RETURN_TYPE RET @ [''__mStubFunc_'' @ FUNC, ''(''] @ mock_decl @ ['')'',
               ''{'',
               ''if'', ''('', ''actualCall'', ''->'', ''hasReturnValue'', ''('', '')'', '')'',
               ''{''] @
               M_RETURN_FUNC_IMPL RET @ ['';'',
               ''}'',
               ''else'',
               ''{''] @
               M_RETURN RET @ [''__real_'' @ FUNC, ''(''] @ call @ ['')'', '';''])))"

subsection \<open>\<open>_M_IMPLEMENT_MOCK_CALL\<close>\<close>

text \<open>
  \<open>void __mCallFunc_FUNC(_M_PARAMS_MOCK_DECLARATION(FUNC,__VA_ARGS__))
  { _M_PARAMS_FUNC_IMPL(FUNC,__VA_ARGS__); }\<close>: the parameter list and the
  statements of the body.
\<close>

record generated_call_adapter =
  adapter_name :: token
  adapter_parameters :: "malformed + token list"
  adapter_body :: "malformed + stmt list"

definition M_IMPLEMENT_MOCK_CALL :: "string \<Rightarrow> param \<Rightarrow> param list \<Rightarrow> generated_call_adapter" where
  "M_IMPLEMENT_MOCK_CALL FUNC P va =
     \<lparr>adapter_name = ''__mCallFunc_'' @ FUNC,
      adapter_parameters = tokens_of (M_PARAMS_MOCK_DECLARATION FUNC P va),
      adapter_body = M_PARAMS_FUNC_IMPL FUNC (P # va)\<rparr>"

section \<open>Properties of the Mock State Record accessors\<close>

text \<open>
  C5. Whatever the state of the record (so after any sequence of enable, set-scope,
  set-call-adapter and set-return-adapter operations), \<open>__mReset_FUNC\<close> leaves the
  record equal to its static initialiser: flag 0, scope the empty string, and the two
  adapters the generated \<open>__mCallFunc_FUNC\<close> and \<open>__mStubFunc_FUNC\<close>.
\<close>

theorem mReset_restores_initial_state:
  "mReset dcall dstub s = mState dcall dstub
   \<and> mockFlag (mReset dcall dstub s) = 0
   \<and> scope (mReset dcall dstub s) = ''''
   \<and> callFunc (mReset dcall dstub s) = Some dcall
   \<and> stubFunc (mReset dcall dstub s) = Some dstub"
  by (simp add: mReset_def mState_def)

text \<open>
  C6. \<open>__mEnable_FUNC\<close> sets the flag to 1 and leaves scope, call adapter and
  return adapter as they were.
\<close>

theorem mEnable_sets_only_flag:
  "mockFlag (mEnable s) = 1
   \<and> scope (mEnable s) = scope s
   \<and> callFunc (mEnable s) = callFunc s
   \<and> stubFunc (mEnable s) = stubFunc s"
  by (simp add: mEnable_def)

text \<open>
  C9. When the flag is 0 and the build defines no \<open>Assert\<close>, the three setters
  raise no error and store their argument; the only way the misuse is surfaced is
  the assertion of a build that defines \<open>Assert\<close>.
\<close>

theorem setters_while_disabled:
  assumes "mockFlag s = 0"
  shows "mSetScope Assert_undefined sc s = Inr (s\<lparr>scope := sc\<rparr>)
   \<and> mSetCallFunc Assert_undefined cf s = Inr (s\<lparr>callFunc := cf\<rparr>)
   \<and> mSetStubFunc Assert_undefined sf s = Inr (s\<lparr>stubFunc := sf\<rparr>)
   \<and> mSetScope Assert_defined sc s = Inl Assertion_failed
   \<and> mSetCallFunc Assert_defined cf s = Inl Assertion_failed
   \<and> mSetStubFunc Assert_defined sf s = Inl Assertion_failed"
  using assms by (simp add: mSetScope_def mSetCallFunc_def mSetStubFunc_def Assert_def)

theorem setters_while_disabled_witness:
  "mockFlag (mState (\<lambda>ms ac args w. w) (\<lambda>ms ac args w. (None, w))
       :: (int, int) MoxieState) = 0
   \<and> mSetScope Assert_undefined ''MATH''
        (mState (\<lambda>ms ac args w. w) (\<lambda>ms ac args w. (None, w)) :: (int, int) MoxieState)
      = Inr \<lparr>mockFlag = 0, scope = ''MATH'', callFunc = Some (\<lambda>ms ac args w. w),
             stubFunc = Some (\<lambda>ms ac args w. (None, w))\<rparr>
   \<and> mSetCallFunc Assert_undefined None
        (mState (\<lambda>ms ac args w. w) (\<lambda>ms ac args w. (None, w)) :: (int, int) MoxieState)
      = Inr \<lparr>mockFlag = 0, scope = '''', callFunc = None,
             stubFunc = Some (\<lambda>ms ac args w. (None, w))\<rparr>
   \<and> mSetStubFunc Assert_undefined None
        (mState (\<lambda>ms ac args w. w) (\<lambda>ms ac args w. (None, w)) :: (int, int) MoxieState)
      = Inr \<lparr>mockFlag = 0, scope = '''', callFunc = Some (\<lambda>ms ac args w. w),
             stubFunc = None\<rparr>"
  using setters_while_disabled
    [of "mState (\<lambda>ms ac args w. w) (\<lambda>ms ac args w. (None, w)) :: (int, int) MoxieState"]
  by (simp add: mState_def)

section \<open>Facts about the arity dispatcher\<close>

lemma rev_upt_nth: "k < m \<Longrightarrow> rev [0..<m] ! k = m - Suc k"
  by (simp add: rev_nth)

lemma M_N_VA_ARGS_value:
  fixes va :: "'a list"
  assumes "va \<noteq> []" and "length va \<le> 32"
  shows "M_N_VA_ARGS va = Some (Num (length va - 1))"
proof -
  define ns where "ns = map (Num :: nat \<Rightarrow> 'a va_arg) (rev [0..<32])"
  have len: "32 - length va < 32" using assms by (cases va) auto
  have lns: "length ns = 32" by (simp add: ns_def)
  have "(map Arg va @ ns) ! 32 = ns ! (32 - length va)"
    using assms(2) len by (simp add: nth_append lns)
  also have "\<dots> = Num (rev [0..<32] ! (32 - length va))"
    unfolding ns_def using len by (intro nth_map) simp
  also have "rev [0..<32] ! (32 - length va) = 32 - Suc (32 - length va)"
    using len by (rule rev_upt_nth)
  finally have "(map Arg va @ ns) ! 32 = Num (32 - Suc (32 - length va))" .
  moreover have "M_N_VA_ARGS va = Some ((map Arg va @ ns) ! 32)"
    using assms(1) by (simp add: M_N_VA_ARGS_def M_N_VA_ARGS_pick_def ns_def)
  moreover have "32 - Suc (32 - length va) = length va - 1" using assms(2) by simp
  ultimately show ?thesis by simp
qed

lemma M_N_VA_ARGS_count:
  fixes va :: "'a list"
  assumes "M_N_VA_ARGS va = Some (Num n)" and "va \<noteq> []"
  shows "length va = Suc n"
proof (cases "length va \<le> 32")
  case True
  from M_N_VA_ARGS_value[OF assms(2) True] assms show ?thesis by (cases va) auto
next
  case False
  define ns where "ns = map (Num :: nat \<Rightarrow> 'a va_arg) (rev [0..<32])"
  from False have "(map Arg va @ ns) ! 32 = Arg (va ! 32)"
    by (simp add: nth_append)
  moreover have "M_N_VA_ARGS va = Some ((map Arg va @ ns) ! 32)"
    using assms(2) by (simp add: M_N_VA_ARGS_def M_N_VA_ARGS_pick_def ns_def)
  ultimately show ?thesis using assms(1) by simp
qed

lemma M_PARAMS_n_entries:
  assumes "M_PARAMS_n n CALLBACK TAIL FUNC INDEX va = Inr r" and "length va = Suc n"
    and "\<And>i P. CALLBACK FUNC i P = c P" and "\<And>i P. TAIL FUNC i P = t P"
  shows "r = concat (map c (butlast va)) @ t (last va)"
  using assms(1,2)
proof (induction n arbitrary: INDEX va r)
  case 0
  then show ?case by (cases va) (auto simp: assms(4))
next
  case (Suc n)
  then obtain P rest where va: "va = P # rest" by (cases va) auto
  with Suc.prems obtain r' where
    r': "M_PARAMS_n n CALLBACK TAIL FUNC (M_INC INDEX) rest = Inr r'" and
    r: "r = CALLBACK FUNC INDEX P @ r'"
    by (auto split: if_splits sum.splits)
  have "rest \<noteq> []" using Suc.prems(2) va by auto
  moreover have "r' = concat (map c (butlast rest)) @ t (last rest)"
    using Suc.IH[OF r'] Suc.prems(2) va by simp
  ultimately show ?case using r va by (simp add: assms(3))
qed

lemma M_PARAMS_entries:
  assumes "M_PARAMS CALLBACK TAIL FUNC va = Inr r"
    and "\<And>i P. CALLBACK FUNC i P = c P" and "\<And>i P. TAIL FUNC i P = t P"
  shows "va \<noteq> [] \<and> r = concat (map c (butlast va)) @ t (last va)"
proof -
  from assms(1) obtain n where n: "M_N_VA_ARGS va = Some (Num n)"
    and r: "M_PARAMS_n n CALLBACK TAIL FUNC 0 va = Inr r"
    by (auto simp: M_PARAMS_def split: option.splits va_arg.splits)
  have ne: "va \<noteq> []"
  proof
    assume "va = []"
    with r show False by (cases n) (auto split: if_splits)
  qed
  from M_N_VA_ARGS_count[OF n ne] have "length va = Suc n" .
  from M_PARAMS_n_entries[OF r this assms(2,3)] ne show ?thesis by simp
qed

lemma M_PARAMS_FUNC_IMPL_body:
  assumes "M_PARAMS_FUNC_IMPL FUNC va = Inr body"
  shows "body = concat (map M_PARAM_CALLBACK va)"
proof -
  have *: "va \<noteq> [] \<and> body = concat (map M_PARAM_CALLBACK (butlast va)) @ M_PARAM_CALLBACK (last va)"
    using assms unfolding M_PARAMS_FUNC_IMPL_def
    by (rule M_PARAMS_entries) (simp_all add: M_PARAM_FUNC_IMPL_def M_PARAM_FUNC_IMPL_TAIL_def)
  then have "butlast va @ [last va] = va" by simp
  then have "concat (map M_PARAM_CALLBACK va)
             = concat (map M_PARAM_CALLBACK (butlast va @ [last va]))" by simp
  also have "\<dots> = concat (map M_PARAM_CALLBACK (butlast va)) @ M_PARAM_CALLBACK (last va)"
    by (simp del: append_butlast_last_id)
  finally show ?thesis using * by simp
qed

lemma M_PARAMS_unfold:
  assumes "va \<noteq> []" and "length va \<le> 32"
  shows "M_PARAMS CALLBACK TAIL FUNC va = M_PARAMS_n (length va - 1) CALLBACK TAIL FUNC 0 va"
  by (simp add: M_PARAMS_def M_N_VA_ARGS_value[OF assms])

lemma M_PARAMS_n_malformed:
  assumes "8 \<le> n" and "n \<le> 31" and "length va = Suc n"
  shows "M_PARAMS_n n CALLBACK TAIL FUNC INDEX va = Inl Unbalanced_parenthesis"
  using assms
proof (induction n arbitrary: INDEX va)
  case 0
  then show ?case by simp
next
  case (Suc n)
  show ?case
  proof (cases "Suc n = 8")
    case True
    have "M_PARAMS_n (Suc n) CALLBACK TAIL FUNC INDEX va =
            (if 31 < Suc n then Inl No_such_macro else Inl Unbalanced_parenthesis)"
      by (subst M_PARAMS_n.simps) (simp add: True)
    with True show ?thesis by simp
  next
    case False
    with Suc.prems obtain P rest where va: "va = P # rest" and "length rest = Suc n"
      by (cases va) auto
    moreover from False Suc.prems have "8 \<le> n" "n \<le> 31" by simp_all
    ultimately have "M_PARAMS_n n CALLBACK TAIL FUNC (M_INC INDEX) rest = Inl Unbalanced_parenthesis"
      using Suc.IH by blast
    with False Suc.prems(2) va show ?thesis by simp
  qed
qed

lemma M_PARAMS_malformed:
  assumes "9 \<le> length va" and "length va \<le> 32"
  shows "M_PARAMS CALLBACK TAIL FUNC va = Inl Unbalanced_parenthesis"
proof -
  from assms have ne: "va \<noteq> []" by auto
  have "M_PARAMS_n (length va - 1) CALLBACK TAIL FUNC 0 va = Inl Unbalanced_parenthesis"
    using assms by (intro M_PARAMS_n_malformed) simp_all
  then show ?thesis by (simp add: M_PARAMS_unfold[OF ne assms(2)])
qed

lemma M_PARAMS_n_defined:
  assumes "n < 8" and "length va = Suc n"
  shows "\<exists>r. M_PARAMS_n n CALLBACK TAIL FUNC INDEX va = Inr r"
  using assms
proof (induction n arbitrary: INDEX va)
  case 0
  then show ?case by (cases va) auto
next
  case (Suc n)
  then obtain P rest where va: "va = P # rest" and "length rest = Suc n"
    by (cases va) auto
  moreover from Suc.prems have "n < 8" by simp
  ultimately obtain r where "M_PARAMS_n n CALLBACK TAIL FUNC (M_INC INDEX) rest = Inr r"
    using Suc.IH by blast
  with Suc.prems(1) va show ?case by simp
qed

lemma M_PARAMS_defined:
  assumes "va \<noteq> []" and "length va \<le> 8"
  shows "\<exists>r. M_PARAMS CALLBACK TAIL FUNC va = Inr r"
proof -
  have "\<exists>r. M_PARAMS_n (length va - 1) CALLBACK TAIL FUNC 0 va = Inr r"
    using assms by (intro M_PARAMS_n_defined) (cases va; simp)+
  then show ?thesis using assms by (simp add: M_PARAMS_unfold)
qed

section \<open>Evaluations of the macro layer\<close>

text \<open>
  C1. For nine descriptors the expansion of each of the three list projections goes
  through \<open>_M_PARAMS_8\<close> and is malformed, so it does not contain one entry per
  descriptor; for eight descriptors the declaration list has one entry per
  descriptor, in order. (\<open>M_PARAMS_malformed\<close> gives the same for every list of
  9 to 32 descriptors.)
\<close>

theorem M_PARAMS_nine_descriptors:
  "M_PARAMS_PROTOTYPE ''f''
     [P_INT ''int'' ''a'', P_INT ''int'' ''b'', P_INT ''int'' ''c'', P_INT ''int'' ''d'',
      P_INT ''int'' ''e'', P_INT ''int'' ''f'', P_INT ''int'' ''g'', P_INT ''int'' ''h'',
      P_INT ''int'' ''i''] = Inl Unbalanced_parenthesis
   \<and> M_PARAMS_DECLARATION ''f''
     [P_INT ''int'' ''a'', P_INT ''int'' ''b'', P_INT ''int'' ''c'', P_INT ''int'' ''d'',
      P_INT ''int'' ''e'', P_INT ''int'' ''f'', P_INT ''int'' ''g'', P_INT ''int'' ''h'',
      P_INT ''int'' ''i''] = Inl Unbalanced_parenthesis
   \<and> M_PARAMS_CALL ''f''
     [P_INT ''int'' ''a'', P_INT ''int'' ''b'', P_INT ''int'' ''c'', P_INT ''int'' ''d'',
      P_INT ''int'' ''e'', P_INT ''int'' ''f'', P_INT ''int'' ''g'', P_INT ''int'' ''h'',
      P_INT ''int'' ''i''] = Inl Unbalanced_parenthesis
   \<and> M_PARAMS_DECLARATION ''f''
     [P_INT ''int'' ''a'', P_INT ''int'' ''b'', P_INT ''int'' ''c'', P_INT ''int'' ''d'',
      P_INT ''int'' ''e'', P_INT ''int'' ''f'', P_INT ''int'' ''g'', P_INT ''int'' ''h'']
     = Inr [''int'', ''a'', '','', ''int'', ''b'', '','', ''int'', ''c'', '','', ''int'', ''d'', '','',
            ''int'', ''e'', '','', ''int'', ''f'', '','', ''int'', ''g'', '','', ''int'', ''h'']"
  by (simp add: M_PARAMS_PROTOTYPE_def M_PARAMS_DECLARATION_def M_PARAMS_CALL_def
        M_PARAMS_unfold M_PARAM_DECLARATION_def M_PARAM_DECLARATION_TAIL_def)

text \<open>
  C7. With \<open>M_PARAM_VOID\<close> as the sole descriptor the plain prototype and
  declaration projections are the single token \<open>void\<close> and the plain call
  projection is empty. The projections with the mock-support parameters are not
  the two implicit parameters: \<open>_M_NEGATE\<close> pastes \<open>_M_NEGATE\<close> (not
  \<open>_M_NEGATE_\<close>) onto its argument, so \<open>_M_IF\<close> produces the identifier
  \<open>_M_IF__M_NEGATE0\<close>, which is no macro, and both alternatives stay in the output.
\<close>

theorem void_marker_projections:
  "M_PARAMS_PROTOTYPE ''f'' [M_PARAM_VOID] = Inr [''void'']
   \<and> M_PARAMS_DECLARATION ''f'' [M_PARAM_VOID] = Inr [''void'']
   \<and> M_PARAMS_CALL ''f'' [M_PARAM_VOID] = Inr []
   \<and> M_PARAMS_MOCK_PROTOTYPE ''f'' M_PARAM_VOID [] =
       Unexpanded [''_M_IF__M_NEGATE0'']
         [Inr [''MockSupport_c*'', '','', ''MockActualCall_c*''],
          Inr [''MockSupport_c*'', '','', ''MockActualCall_c*'', '','', ''void'']]
   \<and> M_PARAMS_MOCK_DECLARATION ''f'' M_PARAM_VOID [] =
       Unexpanded [''_M_IF__M_NEGATE0'']
         [Inr [''MockSupport_c*'', ''mockSupport'', '','', ''MockActualCall_c*'', ''actualCall''],
          Inr [''MockSupport_c*'', ''mockSupport'', '','', ''MockActualCall_c*'', ''actualCall'',
               '','', ''void'']]
   \<and> M_PARAMS_MOCK_CALL ''f'' M_PARAM_VOID [] =
       Unexpanded [''_M_IF__M_NEGATE0'']
         [Inr [''mockSupport'', '','', ''actualCall''],
          Inr [''mockSupport'', '','', ''actualCall'', '','']]"
  by (simp add: M_PARAMS_PROTOTYPE_def M_PARAMS_DECLARATION_def M_PARAMS_CALL_def
        M_PARAMS_MOCK_PROTOTYPE_def M_PARAMS_MOCK_DECLARATION_def M_PARAMS_MOCK_CALL_def
        M_PARAMS_unfold M_PARAM_VOID_def M_PARAM_MS_def M_PARAM_MAC_def
        M_PARAM_PROTOTYPE_def M_PARAM_PROTOTYPE_TAIL_def
        M_PARAM_DECLARATION_def M_PARAM_DECLARATION_TAIL_def
        M_PARAM_CALL_def M_PARAM_CALL_TAIL_def
        M_IF_def M_IS_TRUE_def M_NEGATE_def M_NOT_def M_CHECK_def M_CHECK_N_def
        M_PCAT_def rescan_def object_macro_def M_EQUAL_def M_NOT_EQUAL_def M_IF_sel_def
        M_AND_def M_IS_COMPARABLE_def M_IS_PAREN_def M_COMPARE_def M_NEQ_COMPARABLE_def)

text \<open>
  C10. \<open>Moxie_reset(sqrt)\<close> and its four siblings expand to two tokens, the prefix
  identifier and the string literal \<open>"sqrt"\<close>, not to the single identifier that
  \<open>_M_DECLARE_MOCK\<close> declares; for no \<open>FUNC\<close> is the expansion the declared
  accessor's name.
\<close>

theorem accessor_macros_stringize:
  "Moxie_reset ''sqrt'' = [Identifier ''__mReset_'', String_literal ''sqrt'']
   \<and> Moxie_enable ''sqrt'' = [Identifier ''__mEnable_'', String_literal ''sqrt'']
   \<and> Moxie_setScope ''sqrt'' = [Identifier ''__mSetScope_'', String_literal ''sqrt'']
   \<and> Moxie_setCallFunc ''sqrt'' = [Identifier ''__mSetCallFunc_'', String_literal ''sqrt'']
   \<and> Moxie_setStubFunc ''sqrt'' = [Identifier ''__mSetStubFunc_'', String_literal ''sqrt'']
   \<and> declared_accessors ''sqrt'' =
       [Identifier ''__mReset_sqrt'', Identifier ''__mEnable_sqrt'',
        Identifier ''__mSetScope_sqrt'', Identifier ''__mSetCallFunc_sqrt'',
        Identifier ''__mSetStubFunc_sqrt'']
   \<and> M_REAL_FUNC ''sqrt'' = [Identifier ''__real_sqrt'']
   \<and> Moxie_reset FUNC \<noteq> [declared_accessors FUNC ! 0]
   \<and> Moxie_enable FUNC \<noteq> [declared_accessors FUNC ! 1]
   \<and> Moxie_setScope FUNC \<noteq> [declared_accessors FUNC ! 2]
   \<and> Moxie_setCallFunc FUNC \<noteq> [declared_accessors FUNC ! 3]
   \<and> Moxie_setStubFunc FUNC \<noteq> [declared_accessors FUNC ! 4]"
  by (simp add: Moxie_reset_def Moxie_enable_def Moxie_setScope_def Moxie_setCallFunc_def
        Moxie_setStubFunc_def declared_accessors_def M_REAL_FUNC_def)

section \<open>Evaluations of the generated function texts\<close>

lemmas meta_macro_defs =
  M_IF_def M_IS_TRUE_def M_NEGATE_def M_NOT_def M_CHECK_def M_CHECK_N_def
  M_PCAT_def rescan_def object_macro_def M_EQUAL_def M_NOT_EQUAL_def M_IF_sel_def
  M_AND_def M_IS_COMPARABLE_def M_IS_PAREN_def M_COMPARE_def M_NEQ_COMPARABLE_def

lemmas projection_defs =
  M_PARAMS_PROTOTYPE_def M_PARAMS_DECLARATION_def M_PARAMS_CALL_def M_PARAMS_FUNC_IMPL_def
  M_PARAMS_MOCK_PROTOTYPE_def M_PARAMS_MOCK_DECLARATION_def M_PARAMS_MOCK_CALL_def
  M_PARAM_PROTOTYPE_def M_PARAM_PROTOTYPE_TAIL_def
  M_PARAM_DECLARATION_def M_PARAM_DECLARATION_TAIL_def
  M_PARAM_CALL_def M_PARAM_CALL_TAIL_def
  M_PARAM_FUNC_IMPL_def M_PARAM_FUNC_IMPL_TAIL_def
  M_PARAM_VOID_def M_PARAM_MS_def M_PARAM_MAC_def

lemmas return_macro_defs =
  M_RETURN_def M_WHEN_def M_RETURN_TYPE_def M_RETURN_CALLBACK_def M_RETURN_FUNC_IMPL_def
  invoke_def return_type_macro_def return_callback_macro_def

lemma M_RETURN_TYPE_never_expands:
  "M_RETURN_TYPE RET = (''_M_RETURN_TYPE_'' @ hd (ret_tokens RET)) # tl (ret_tokens RET)"
  by (cases RET) (simp_all add: M_RETURN_TYPE_def invoke_def return_type_macro_def M_PCAT_def)

lemma M_RETURN_never_returns:
  "M_RETURN RET =
     [''_M_IF__M_NEGATE0'', ''('', ''_M_EXPAND'', '','', ''_M_IGNORE'', '')'',
      ''('', ''return'', '')'']"
  by (cases RET) (simp_all add: return_macro_defs meta_macro_defs)

text \<open>
  C2. For \<open>M_IMPLEMENT_MOCK(M_RETURN_INT(int), f, M_PARAM_INT(int,x))\<close> the text
  generated for \<open>__wrap_f\<close> has no return type (\<open>_M_RETURN_TYPE__INT (int)\<close> names
  no macro) and its fast path is
  \<open>_M_IF__M_NEGATE0(_M_EXPAND,_M_IGNORE)(return) __real_f(x);\<close>: no \<open>return\<close>
  statement hands the result of the real trampoline back. The same holds for every
  return descriptor.
\<close>

theorem wrap_text_fast_path:
  "M_IMPLEMENT_MOCK_WRAP (R_INT ''int'') ''f'' (P_INT ''int'' ''x'') [] =
     Inr [''_M_RETURN_TYPE__INT'', ''('', ''int'', '')'', ''__wrap_f'', ''('', ''int'', ''x'', '')'',
          ''{'',
          ''int'', ''mockFlag'', ''='', ''__mState_f'', ''.'', ''mockFlag'', '';'',
          ''if'', ''('', ''!'', ''mockFlag'', '')'',
          ''{'',
          ''_M_IF__M_NEGATE0'', ''('', ''_M_EXPAND'', '','', ''_M_IGNORE'', '')'',
            ''('', ''return'', '')'', ''__real_f'', ''('', ''x'', '')'', '';'',
          ''}'',
          ''else'',
          ''{'',
          ''char'', ''*'', ''scope'', ''='', ''__mState_f'', ''.'', ''scope'', '';'',
          ''MockSupport_c'', ''*'', ''mockSupport'', ''='',
            ''('', ''scope'', ''['', ''0'', '']'', ''=='', nul_literal, '')'',
            ''?'', ''mock_c'', ''('', '')'', '':'', ''mock_scope_c'', ''('', ''scope'', '')'', '';'',
          ''MockActualCall_c'', ''*'', ''actualCall'', ''='',
            ''mockSupport'', ''->'', ''actualCall'', ''('', string_literal ''f'', '')'', '';'',
          ''MoxieCallFunc_f'', ''callFunc'', ''='', ''__mState_f'', ''.'', ''callFunc'', '';'',
          ''if'', ''('', ''callFunc'', ''!='', ''NULL'', '')'',
          ''{'',
          ''('', ''*'', ''callFunc'', '')'', ''('',
            ''_M_IF__M_NEGATE0'', ''('', ''mockSupport'', '','', ''actualCall'', '','',
            ''mockSupport'', '','', ''actualCall'', '','', ''x'', '')'', '')'', '';'',
          ''}'',
          ''MoxieStubFunc_f'', ''stubFunc'', ''='', ''__mState_f'', ''.'', ''stubFunc'', '';'',
          ''if'', ''('', ''stubFunc'', ''!='', ''NULL'', '')'',
          ''{'',
          ''_M_IF__M_NEGATE0'', ''('', ''_M_EXPAND'', '','', ''_M_IGNORE'', '')'',
            ''('', ''return'', '')'', ''('', ''*'', ''stubFunc'', '')'', ''('',
            ''_M_IF__M_NEGATE0'', ''('', ''mockSupport'', '','', ''actualCall'', '','',
            ''mockSupport'', '','', ''actualCall'', '','', ''x'', '')'', '')'', '';'',
          ''}'',
          ''else'',
          ''{'',
          ''_M_IF__M_NEGATE0'', ''('', ''_M_EXPAND'', '','', ''_M_IGNORE'', '')'',
            ''('', ''return'', '')'', ''__real_f'', ''('', ''x'', '')'', '';'',
          ''}'',
          ''}'',
          ''}'']
   \<and> wrap_real_call RET FUNC call =
       [''_M_IF__M_NEGATE0'', ''('', ''_M_EXPAND'', '','', ''_M_IGNORE'', '')'',
        ''('', ''return'', '')'', ''__real_'' @ FUNC, ''(''] @ call @ ['')'', '';'']
   \<and> M_RETURN_TYPE (R_INT PTYPE) = [''_M_RETURN_TYPE__INT'', ''('', PTYPE, '')'']
   \<and> M_RETURN_TYPE R_VOID = [''_M_RETURN_TYPE__VOID'']"
  by (simp add: M_IMPLEMENT_MOCK_WRAP_def wrap_real_call_def wrap_callFunc_call_def
        wrap_stubFunc_call_def M_RETURN_never_returns M_RETURN_TYPE_never_expands
        projection_defs M_PARAMS_unfold meta_macro_defs)

text \<open>
  C3. In the same generated text the statement of the return-adapter branch
  (line 432) is
  \<open>_M_IF__M_NEGATE0(_M_EXPAND,_M_IGNORE)(return)
  (*stubFunc)(_M_IF__M_NEGATE0(mockSupport,actualCall,mockSupport,actualCall,x));\<close>:
  the argument list of the adapter is not the tracking context, the call record and
  the original arguments, and no \<open>return\<close> statement hands the adapter's result
  back. The call-adapter statement (line 425) has the same argument list.
\<close>

theorem wrap_text_stub_branch:
  "tokens_of (M_PARAMS_MOCK_CALL ''f'' (P_INT ''int'' ''x'') []) =
     Inr [''_M_IF__M_NEGATE0'', ''('', ''mockSupport'', '','', ''actualCall'', '','',
          ''mockSupport'', '','', ''actualCall'', '','', ''x'', '')'']
   \<and> wrap_stubFunc_call (R_INT ''int'')
         [''_M_IF__M_NEGATE0'', ''('', ''mockSupport'', '','', ''actualCall'', '','',
          ''mockSupport'', '','', ''actualCall'', '','', ''x'', '')''] =
       [''_M_IF__M_NEGATE0'', ''('', ''_M_EXPAND'', '','', ''_M_IGNORE'', '')'',
        ''('', ''return'', '')'', ''('', ''*'', ''stubFunc'', '')'', ''('',
        ''_M_IF__M_NEGATE0'', ''('', ''mockSupport'', '','', ''actualCall'', '','',
        ''mockSupport'', '','', ''actualCall'', '','', ''x'', '')'', '')'', '';'']
   \<and> wrap_callFunc_call
         [''_M_IF__M_NEGATE0'', ''('', ''mockSupport'', '','', ''actualCall'', '','',
          ''mockSupport'', '','', ''actualCall'', '','', ''x'', '')''] =
       [''('', ''*'', ''callFunc'', '')'', ''('',
        ''_M_IF__M_NEGATE0'', ''('', ''mockSupport'', '','', ''actualCall'', '','',
        ''mockSupport'', '','', ''actualCall'', '','', ''x'', '')'', '')'', '';'']
   \<and> wrap_stubFunc_call RET mock_call =
       [''_M_IF__M_NEGATE0'', ''('', ''_M_EXPAND'', '','', ''_M_IGNORE'', '')'',
        ''('', ''return'', '')'', ''('', ''*'', ''stubFunc'', '')'', ''(''] @ mock_call @
       ['')'', '';'']"
  by (simp add: wrap_callFunc_call_def wrap_stubFunc_call_def M_RETURN_never_returns
        projection_defs M_PARAMS_unfold meta_macro_defs)

text \<open>
  C4. The text generated for the default return adapter \<open>__mStubFunc_f\<close> of the
  same function has no return type, the parameter list
  \<open>_M_IF__M_NEGATE0(...)\<close>, the unexpanded \<open>_M_RETURN_CALLBACK__INT (int)\<close> where
  the configured value should be returned, no \<open>return\<close> before the call of the
  real trampoline, and ends after that call with two braces still open: the macro's
  replacement list stops at line 457.
\<close>

theorem stub_adapter_text:
  "M_IMPLEMENT_MOCK_STUB (R_INT ''int'') ''f'' (P_INT ''int'' ''x'') [] =
     Inr [''_M_RETURN_TYPE__INT'', ''('', ''int'', '')'', ''__mStubFunc_f'', ''('',
            ''_M_IF__M_NEGATE0'', ''('',
            ''MockSupport_c*'', ''mockSupport'', '','', ''MockActualCall_c*'', ''actualCall'', '','',
            ''MockSupport_c*'', ''mockSupport'', '','', ''MockActualCall_c*'', ''actualCall'', '','',
            ''int'', ''x'', '')'', '')'',
          ''{'',
          ''if'', ''('', ''actualCall'', ''->'', ''hasReturnValue'', ''('', '')'', '')'',
          ''{'',
          ''_M_RETURN_CALLBACK__INT'', ''('', ''int'', '')'', '';'',
          ''}'',
          ''else'',
          ''{'',
          ''_M_IF__M_NEGATE0'', ''('', ''_M_EXPAND'', '','', ''_M_IGNORE'', '')'',
            ''('', ''return'', '')'', ''__real_f'', ''('', ''x'', '')'', '';'']
   \<and> M_RETURN_FUNC_IMPL (R_INT PTYPE) = [''_M_RETURN_CALLBACK__INT'', ''('', PTYPE, '')'']
   \<and> M_RETURN_FUNC_IMPL R_VOID = [''_M_RETURN_CALLBACK__VOID'']"
  by (simp add: M_IMPLEMENT_MOCK_STUB_def M_RETURN_never_returns M_RETURN_TYPE_never_expands
        M_RETURN_FUNC_IMPL_def M_RETURN_CALLBACK_def invoke_def return_callback_macro_def
        projection_defs M_PARAMS_unfold meta_macro_defs)

text \<open>
  C8. For nine declared descriptors neither the parameter list nor the body of the
  generated \<open>__mCallFunc_f\<close> expands (both go through \<open>_M_PARAMS_8\<close>), so no
  accessor is registered for any of them. For one descriptor the body is the
  accessor statement of its kind, but the parameter list is
  \<open>_M_IF__M_NEGATE0(...)\<close> and declares no \<open>actualCall\<close> for the statement to
  use.
\<close>

theorem call_adapter_text:
  "M_IMPLEMENT_MOCK_CALL ''f'' (P_INT ''int'' ''a'')
     [P_BOOL ''bool'' ''b'', P_UINT ''unsigned'' ''c'', P_LONG ''long'' ''d'',
      P_ULONG ''unsigned long'' ''e'', P_DOUBLE ''double'' ''f'',
      P_CHAR_PTR ''const char*'' ''g'', P_IN_PTR ''void*'' ''h'',
      P_IN_TYPE_PTR ''Foo*'' ''i''] =
     \<lparr>adapter_name = ''__mCallFunc_f'',
      adapter_parameters = Inl Unbalanced_parenthesis,
      adapter_body = Inl Unbalanced_parenthesis\<rparr>
   \<and> M_IMPLEMENT_MOCK_CALL ''f'' (P_INT ''int'' ''x'') [] =
     \<lparr>adapter_name = ''__mCallFunc_f'',
      adapter_parameters =
        Inr [''_M_IF__M_NEGATE0'', ''('',
             ''MockSupport_c*'', ''mockSupport'', '','', ''MockActualCall_c*'', ''actualCall'', '','',
             ''MockSupport_c*'', ''mockSupport'', '','', ''MockActualCall_c*'', ''actualCall'', '','',
             ''int'', ''x'', '')''],
      adapter_body = Inr [Call_with withIntParameters ''x'' ''x'']\<rparr>"
  by (simp add: M_IMPLEMENT_MOCK_CALL_def projection_defs M_PARAMS_unfold meta_macro_defs
        M_STR_def)

end
